theory Spec2Isabelle
  imports Complex_Main "HOL-Library.Multiset"
begin

section \<open>The exploratory notebook: data model\<close>

text \<open>
  The notebook \<^verbatim>\<open>notebooks/data-exploration.ipynb\<close> loads three pairs of parquet
  tables and renders boxplots and missingness heatmaps from them. Its functions are
  embedded below, statement by statement. The calls into pandas, numpy and matplotlib
  are modelled after the documented behaviour of these libraries; each such model says
  so where it is defined.

  A cell of a numeric column is a \<open>float64\<close> or \<open>NaN\<close>. Numbers are taken as exact
  rationals (rounding is not modelled) and \<open>NaN\<close> is \<open>None\<close>. Integer columns (the hour
  key, the 0/1 missing indicator and the counts) are embedded in the same cell type.
\<close>

datatype error = FileNotFoundError | KeyError | IndexError | TypeError | ValueError
  | ZeroDivisionError

type_synonym cell = "rat option"

text \<open>
  Column names. The clinical variables of the catalogue are \<open>Var name\<close>; the key column
  \<open>'Hour'\<close> and the working columns the renderers add to their private copy
  (\<open>'quantile_low'\<close>, \<open>'quantile_high'\<close>, \<open>'missing'\<close>, \<open>'sum'\<close>, \<open>'count'\<close>,
  \<open>'pct_missing'\<close>) are names of their own: no variable of the catalogue carries one of
  these names.
\<close>

datatype colname = Hour | Var string | QuantileLow | QuantileHigh
  | Missing | Sum | Count | PctMissing

type_synonym frame = "colname \<rightharpoonup> cell list"

section \<open>The dataset loader\<close>

type_synonym path = string

text \<open>
  \<^verbatim>\<open>os.path.join(a, b)\<close> on a POSIX system: an absolute second part replaces the first,
  otherwise the parts are joined by one separator.
\<close>

definition path_join :: "path \<Rightarrow> path \<Rightarrow> path" where
  "path_join a b =
     (if take 1 b = ''/'' then b
      else if a = [] \<or> last a = CHR ''/'' then a @ b
      else a @ ''/'' @ b)"

datatype handler = FileHandler path nat | StreamHandler nat

definition DEBUG :: nat where "DEBUG = 10"
definition CRITICAL :: nat where "CRITICAL = 50"

text \<open>
  The part of the process and of the file system the notebook touches: the project
  root (\<^verbatim>\<open>ROOT_DIR\<close>), the parquet files by path, whether the log directory exists,
  the text files by path (a file is the list of records written to it), and the state
  of the logger \<^verbatim>\<open>'data-exploration-logger'\<close>: its level, its own handlers, and whether
  an ancestor logger has a handler (\<^verbatim>\<open>Logger.hasHandlers\<close> looks at both).
\<close>

record world =
  root_dir :: path
  parquet_files :: "path \<rightharpoonup> frame"
  log_dir_exists :: bool
  text_files :: "path \<rightharpoonup> string list"
  logger_level :: nat
  handlers :: "handler list"
  ancestor_handlers :: bool

definition DATA_DIR :: "world \<Rightarrow> path" where
  "DATA_DIR w = path_join (root_dir w) ''data''"

definition LOG_DIR :: "world \<Rightarrow> path" where
  "LOG_DIR w = path_join (root_dir w) ''logs''"

definition log_file :: "world \<Rightarrow> path" where
  "log_file w = path_join (LOG_DIR w) ''data-exploration.log''"

definition hasHandlers :: "world \<Rightarrow> bool" where
  "hasHandlers w = (handlers w \<noteq> [] \<or> ancestor_handlers w)"

text \<open>
  The logging set-up of the notebook: the level is set, the logger's own handlers are
  removed when \<^verbatim>\<open>hasHandlers()\<close> holds, and when it does not hold afterwards the log
  directory is created (an existing one is accepted), a \<^verbatim>\<open>FileHandler\<close> is opened in
  mode \<^verbatim>\<open>'w'\<close> (which creates or truncates the file at once) and a console handler is
  added beside it.
\<close>

definition setup_logging :: "world \<Rightarrow> world" where
  "setup_logging w =
     (let w1 = w\<lparr>logger_level := DEBUG\<rparr>;
          w2 = (if hasHandlers w1 then w1\<lparr>handlers := []\<rparr> else w1)
      in if \<not> hasHandlers w2 then
           (let w3 = w2\<lparr>log_dir_exists := True\<rparr>;
                w4 = w3\<lparr>text_files := (text_files w3)(log_file w3 \<mapsto> [])\<rparr>
            in w4\<lparr>handlers := handlers w4 @
                  [FileHandler (log_file w4) DEBUG, StreamHandler CRITICAL]\<rparr>)
         else w2)"

definition featuresPath :: "world \<Rightarrow> string \<Rightarrow> path" where
  "featuresPath w s = path_join (DATA_DIR w) (''set-'' @ s @ ''.parquet.gzip'')"

definition labelsPath :: "world \<Rightarrow> string \<Rightarrow> path" where
  "labelsPath w s = path_join (DATA_DIR w) (''set-'' @ s @ ''-outcomes.parquet.gzip'')"

text \<open>
  \<^verbatim>\<open>pd.read_parquet(path)\<close>: the table stored at the path, or \<^verbatim>\<open>FileNotFoundError\<close>
  when there is no file. A file that is present holds a table. Reading leaves the
  world as it is.
\<close>

definition read_parquet :: "world \<Rightarrow> path \<Rightarrow> world \<times> (error + frame)" where
  "read_parquet w p =
     (case parquet_files w p of
        None \<Rightarrow> (w, Inl FileNotFoundError)
      | Some t \<Rightarrow> (w, Inr t))"

text \<open>
  The loop of \<^verbatim>\<open>loadData\<close> over the partition names: the features file is read before
  the labels file, the pair is appended, and an exception of either read leaves the
  loop with no list.
\<close>

fun load_loop ::
  "world \<Rightarrow> string list \<Rightarrow> (frame \<times> frame) list \<Rightarrow> world \<times> (error + (frame \<times> frame) list)"
where
  "load_loop w [] dataSets = (w, Inr dataSets)"
| "load_loop w (s # rest) dataSets =
     (case read_parquet w (featuresPath w s) of
        (w1, Inl e) \<Rightarrow> (w1, Inl e)
      | (w1, Inr dfFeatures) \<Rightarrow>
          (case read_parquet w1 (labelsPath w1 s) of
             (w2, Inl e) \<Rightarrow> (w2, Inl e)
           | (w2, Inr dfLabels) \<Rightarrow> load_loop w2 rest (dataSets @ [(dfFeatures, dfLabels)])))"

definition names :: "string list" where
  "names = [''a'', ''b'', ''c'']"

definition loadData :: "world \<Rightarrow> world \<times> (error + (frame \<times> frame) list)" where
  "loadData w = load_loop w names []"

section \<open>Cells, columns and the pandas operations the renderers call\<close>

definition isna :: "cell \<Rightarrow> bool" where
  "isna c = (c = None)"

text \<open>Arithmetic on cells: a \<open>NaN\<close> operand gives \<open>NaN\<close>.\<close>

definition sub_cell :: "cell \<Rightarrow> cell \<Rightarrow> cell" where
  "sub_cell a b = (case a of None \<Rightarrow> None
     | Some x \<Rightarrow> (case b of None \<Rightarrow> None | Some y \<Rightarrow> Some (x - y)))"

definition abs_cell :: "cell \<Rightarrow> cell" where
  "abs_cell a = (case a of None \<Rightarrow> None | Some x \<Rightarrow> Some \<bar>x\<bar>)"

definition neg_cell :: "cell \<Rightarrow> cell" where
  "neg_cell a = (case a of None \<Rightarrow> None | Some x \<Rightarrow> Some (- x))"

text \<open>
  Division of two numeric columns, cell by cell: no exception is raised for a zero
  divisor, the cell is \<open>NaN\<close> or infinite, which is no number here.
\<close>

definition div_cell :: "cell \<Rightarrow> cell \<Rightarrow> cell" where
  "div_cell a b = (case a of None \<Rightarrow> None
     | Some x \<Rightarrow> (case b of None \<Rightarrow> None
         | Some y \<Rightarrow> if y = 0 then None else Some (x / y)))"

text \<open>Comparisons: any comparison with \<open>NaN\<close> is false.\<close>

definition ge_cell :: "cell \<Rightarrow> cell \<Rightarrow> bool" where
  "ge_cell a b = (case a of None \<Rightarrow> False
     | Some x \<Rightarrow> (case b of None \<Rightarrow> False | Some y \<Rightarrow> y \<le> x))"

definition le_cell :: "cell \<Rightarrow> cell \<Rightarrow> bool" where
  "le_cell a b = (case a of None \<Rightarrow> False
     | Some x \<Rightarrow> (case b of None \<Rightarrow> False | Some y \<Rightarrow> x \<le> y))"

fun dropna :: "cell list \<Rightarrow> rat list" where
  "dropna [] = []"
| "dropna (None # cs) = dropna cs"
| "dropna (Some x # cs) = x # dropna cs"

text \<open>
  The median of a group as pandas computes it: \<open>NaN\<close> cells are skipped, a group with
  no number has the median \<open>NaN\<close>, an odd count gives the middle one of the sorted
  numbers and an even count the mean of the two middle ones.
\<close>

definition median :: "cell list \<Rightarrow> cell" where
  "median cs =
     (let xs = sort (dropna cs); n = length xs in
      if n = 0 then None
      else if odd n then Some (xs ! (n div 2))
      else Some ((xs ! (n div 2) + xs ! (n div 2 - 1)) / 2))"

text \<open>
  The quantile of a group as \<^verbatim>\<open>GroupBy.quantile(q)\<close> computes it with its default
  linear interpolation: among the \<open>n\<close> sorted numbers of the group the position is
  \<open>q * (n - 1)\<close>; its integer part selects a number and a fractional part other than
  zero moves from it towards the next number in proportion. A group with no number
  has the quantile \<open>NaN\<close>.
\<close>

definition lerp_at :: "rat list \<Rightarrow> rat \<Rightarrow> rat" where
  "lerp_at xs pos =
     (let idx = nat \<lfloor>pos\<rfloor>;
          frac = pos - of_nat idx;
          v = xs ! idx
      in if frac = 0 then v else v + (xs ! (idx + 1) - v) * frac)"

definition quantile :: "rat \<Rightarrow> cell list \<Rightarrow> cell" where
  "quantile q cs =
     (let xs = sort (dropna cs); n = length xs in
      if n = 0 then None else Some (lerp_at xs (q * of_nat (n - 1))))"

text \<open>
  \<^verbatim>\<open>df.groupby(key)[col]\<close>: the cells of the column in the rows whose key is \<open>g\<close>, in
  row order. Rows whose key is \<open>NaN\<close> belong to no group (\<^verbatim>\<open>dropna=True\<close>).
\<close>

definition group_vals :: "cell list \<Rightarrow> cell list \<Rightarrow> rat \<Rightarrow> cell list" where
  "group_vals keys vals g = map snd (filter (\<lambda>kv. fst kv = Some g) (zip keys vals))"

text \<open>
  \<^verbatim>\<open>.transform(agg)\<close>: every row receives the aggregate of its own group; a row with
  no group receives \<open>NaN\<close>.
\<close>

definition groupby_transform ::
  "(cell list \<Rightarrow> cell) \<Rightarrow> cell list \<Rightarrow> cell list \<Rightarrow> cell list" where
  "groupby_transform agg keys vals =
     map (\<lambda>k. case k of None \<Rightarrow> None | Some g \<Rightarrow> agg (group_vals keys vals g)) keys"

text \<open>The group keys of a \<^verbatim>\<open>groupby\<close>, sorted and without repetition.\<close>

definition group_keys :: "cell list \<Rightarrow> rat list" where
  "group_keys keys = sort (remdups (dropna keys))"

text \<open>\<^verbatim>\<open>.agg(['sum', 'count'])\<close>: per group the sum and the number of its numbers.\<close>

definition group_sum :: "cell list \<Rightarrow> cell" where
  "group_sum cs = Some (sum_list (dropna cs))"

definition group_count :: "cell list \<Rightarrow> cell" where
  "group_count cs = Some (of_nat (length (dropna cs)))"

text \<open>Column arithmetic, row by row.\<close>

definition sub_col :: "cell list \<Rightarrow> cell list \<Rightarrow> cell list" where
  "sub_col xs ys = map (\<lambda>xy. sub_cell (fst xy) (snd xy)) (zip xs ys)"

definition div_col :: "cell list \<Rightarrow> cell list \<Rightarrow> cell list" where
  "div_col xs ys = map (\<lambda>xy. div_cell (fst xy) (snd xy)) (zip xs ys)"

text \<open>
  Lines 188 to 198 of the notebook on the two columns of the private copy: the
  centred column, the two quantile columns and the boolean row mask
  \<^verbatim>\<open>isna(v) | (v >= low) & (v <= high)\<close>, where \<^verbatim>\<open>&\<close> binds tighter than \<^verbatim>\<open>|\<close>.
\<close>

definition centre :: "cell list \<Rightarrow> cell list \<Rightarrow> cell list" where
  "centre keys vals = sub_col vals (groupby_transform median keys vals)"

definition quantile_low :: "cell list \<Rightarrow> cell list \<Rightarrow> cell list" where
  "quantile_low keys cvals = groupby_transform (quantile (25 / 1000)) keys cvals"

definition quantile_high :: "cell list \<Rightarrow> cell list \<Rightarrow> cell list" where
  "quantile_high keys cvals = groupby_transform (quantile (975 / 1000)) keys cvals"

definition keep_row :: "cell \<Rightarrow> cell \<Rightarrow> cell \<Rightarrow> bool" where
  "keep_row v lo hi = (isna v \<or> (ge_cell v lo \<and> le_cell v hi))"

definition trim_mask :: "cell list \<Rightarrow> cell list \<Rightarrow> cell list \<Rightarrow> bool list" where
  "trim_mask vs los his =
     map (\<lambda>r. keep_row (fst r) (fst (snd r)) (snd (snd r))) (zip vs (zip los his))"

text \<open>\<^verbatim>\<open>col[mask]\<close>: the cells of the rows where the mask holds.\<close>

definition select_rows :: "bool list \<Rightarrow> 'a list \<Rightarrow> 'a list" where
  "select_rows keep xs = map snd (filter fst (zip keep xs))"

text \<open>
  \<^verbatim>\<open>Series.max()\<close> skips \<open>NaN\<close> and is \<open>NaN\<close> when no number is left; \<^verbatim>\<open>np.max\<close> of a
  tuple propagates \<open>NaN\<close>: one \<open>NaN\<close> entry makes the result \<open>NaN\<close>.
\<close>

definition series_max :: "cell list \<Rightarrow> cell" where
  "series_max cs = (case dropna cs of [] \<Rightarrow> None | x # xs \<Rightarrow> Some (fold max xs x))"

definition np_max :: "cell \<Rightarrow> cell \<Rightarrow> cell" where
  "np_max a b = (case a of None \<Rightarrow> None
     | Some x \<Rightarrow> (case b of None \<Rightarrow> None | Some y \<Rightarrow> Some (max x y)))"

text \<open>Line 206: \<^verbatim>\<open>np.max((np.abs(df[variable]).max(), 0.05))\<close>.\<close>

definition y_abs_max :: "cell list \<Rightarrow> cell" where
  "y_abs_max vs = np_max (series_max (map abs_cell vs)) (Some (5 / 100))"

section \<open>The object store\<close>

text \<open>
  Tables are objects: a variable holds a reference, and \<^verbatim>\<open>df[c] = ...\<close> writes into the
  object the reference names. The store is the list of all table objects, a reference
  is a position in it, and a new object is put at the end.
\<close>

type_synonym ref = nat

type_synonym heap = "frame list"

definition alloc :: "heap \<Rightarrow> frame \<Rightarrow> heap \<times> ref" where
  "alloc h f = (h @ [f], length h)"

definition setitem :: "heap \<Rightarrow> ref \<Rightarrow> colname \<Rightarrow> cell list \<Rightarrow> heap" where
  "setitem h r c xs = h[r := (h ! r)(c \<mapsto> xs)]"

definition getitem :: "heap \<Rightarrow> ref \<Rightarrow> colname \<Rightarrow> heap \<times> (error + cell list)" where
  "getitem h r c = (case (h ! r) c of None \<Rightarrow> (h, Inl KeyError) | Some xs \<Rightarrow> (h, Inr xs))"

text \<open>
  Sequencing: an exception ends the computation and keeps the store as it was when the
  exception was raised.
\<close>

definition and_then ::
  "heap \<times> (error + 'a) \<Rightarrow> (heap \<Rightarrow> 'a \<Rightarrow> heap \<times> (error + 'b)) \<Rightarrow> heap \<times> (error + 'b)" where
  "and_then m k = (case m of (h, Inl e) \<Rightarrow> (h, Inl e) | (h, Inr x) \<Rightarrow> k h x)"

text \<open>
  \<^verbatim>\<open>data[cols].copy(deep=True)\<close>: \<^verbatim>\<open>KeyError\<close> when a column is absent, otherwise a new
  object that holds the selected columns.
\<close>

definition copy_columns :: "heap \<Rightarrow> ref \<Rightarrow> colname list \<Rightarrow> heap \<times> (error + ref)" where
  "copy_columns h data cs =
     (if list_all (\<lambda>c. (h ! data) c \<noteq> None) cs
      then (case alloc h (\<lambda>c. if c \<in> set cs then (h ! data) c else None) of
              (h1, df) \<Rightarrow> (h1, Inr df))
      else (h, Inl KeyError))"

text \<open>\<^verbatim>\<open>df[mask]\<close>: a new object with the rows where the mask holds.\<close>

definition filter_frame :: "bool list \<Rightarrow> frame \<Rightarrow> frame" where
  "filter_frame keep f = (\<lambda>c. map_option (select_rows keep) (f c))"

section \<open>The boxplot renderer\<close>

text \<open>
  The renderer follows the notebook's function line by line; \<^verbatim>\<open>sns.set\<close>, which only
  selects the drawing style, is left out. What the renderers leave on a matplotlib
  \<^verbatim>\<open>Axes\<close>: the title and axis labels, the
  y-limits once they are set, the x and y columns handed to \<^verbatim>\<open>sns.boxplot\<close>, the cells
  handed to \<^verbatim>\<open>sns.heatmap\<close> (hour and fraction) with its colour range, and whether the
  x tick labels are shown.
\<close>

record axes =
  ax_title :: string
  ax_xlabel :: string
  ax_ylabel :: string
  ax_ylim :: "(rat \<times> rat) option"
  ax_boxes :: "(cell list \<times> cell list) option"
  ax_heatmap :: "(rat \<times> rat) list"
  ax_vrange :: "(rat \<times> rat) option"
  ax_labelbottom :: bool

definition new_axes :: axes where
  "new_axes = \<lparr>ax_title = [], ax_xlabel = [], ax_ylabel = [], ax_ylim = None,
     ax_boxes = None, ax_heatmap = [], ax_vrange = None, ax_labelbottom = True\<rparr>"

text \<open>\<^verbatim>\<open>title if title else default\<close>: \<^verbatim>\<open>None\<close> and the empty string are false.\<close>

definition title_or :: "string option \<Rightarrow> string \<Rightarrow> string" where
  "title_or title dflt = (case title of None \<Rightarrow> dflt | Some t \<Rightarrow> if t = [] then dflt else t)"

text \<open>\<^verbatim>\<open>sns.boxplot(ax=ax, data=df, x='Hour', y=variable)\<close> draws on the axes and returns it.\<close>

definition sns_boxplot ::
  "heap \<Rightarrow> axes \<Rightarrow> ref \<Rightarrow> colname \<Rightarrow> colname \<Rightarrow> heap \<times> (error + axes)" where
  "sns_boxplot h ax df x y =
     and_then (getitem h df x) (\<lambda>h xs.
     and_then (getitem h df y) (\<lambda>h ys.
       (h, Inr (ax\<lparr>ax_boxes := Some (xs, ys)\<rparr>))))"

text \<open>\<^verbatim>\<open>Axes.set_ylim\<close> refuses a limit that is \<open>NaN\<close> with \<^verbatim>\<open>ValueError\<close>.\<close>

definition set_ylim :: "axes \<Rightarrow> cell \<Rightarrow> cell \<Rightarrow> error + axes" where
  "set_ylim ax lo hi =
     (case lo of None \<Rightarrow> Inl ValueError
      | Some l \<Rightarrow> (case hi of None \<Rightarrow> Inl ValueError
          | Some u \<Rightarrow> Inr (ax\<lparr>ax_ylim := Some (l, u)\<rparr>)))"

text \<open>\<^verbatim>\<open>df.groupby('Hour')[variable].transform(agg, ...)\<close> on the object \<open>df\<close>.\<close>

definition transform ::
  "heap \<Rightarrow> ref \<Rightarrow> colname \<Rightarrow> colname \<Rightarrow> (cell list \<Rightarrow> cell) \<Rightarrow> heap \<times> (error + cell list)" where
  "transform h df key c agg =
     and_then (getitem h df key) (\<lambda>h ks.
     and_then (getitem h df c) (\<lambda>h vs.
       (h, Inr (groupby_transform agg ks vs))))"

definition boxplotTimeSeries ::
  "heap \<Rightarrow> axes \<Rightarrow> ref \<Rightarrow> string \<Rightarrow> string option \<Rightarrow> heap \<times> (error + axes)" where
  "boxplotTimeSeries h ax data variable title =
     and_then (copy_columns h data [Hour, Var variable]) (\<lambda>h df.
     and_then (transform h df Hour (Var variable) median) (\<lambda>h medians.
     and_then (getitem h df (Var variable)) (\<lambda>h vs.
     and_then (setitem h df (Var variable) (sub_col vs medians), Inr ()) (\<lambda>h _.
     and_then (transform h df Hour (Var variable) (quantile (25 / 1000))) (\<lambda>h lows.
     and_then (setitem h df QuantileLow lows, Inr ()) (\<lambda>h _.
     and_then (transform h df Hour (Var variable) (quantile (975 / 1000))) (\<lambda>h highs.
     and_then (setitem h df QuantileHigh highs, Inr ()) (\<lambda>h _.
     and_then (getitem h df (Var variable)) (\<lambda>h vs.
     and_then (getitem h df QuantileLow) (\<lambda>h los.
     and_then (getitem h df QuantileHigh) (\<lambda>h his.
     and_then (case alloc h (filter_frame (trim_mask vs los his) (h ! df)) of
                 (h1, r) \<Rightarrow> (h1, Inr r)) (\<lambda>h df.
     and_then (sns_boxplot h ax df Hour (Var variable)) (\<lambda>h plt.
     and_then (h, Inr (plt\<lparr>ax_title :=
                 title_or title (''Distribution of '' @ variable @ '' around its median''),
                 ax_xlabel := [], ax_ylabel := []\<rparr>)) (\<lambda>h plt.
     and_then (getitem h df (Var variable)) (\<lambda>h vs.
       (h, set_ylim plt (neg_cell (y_abs_max vs)) (y_abs_max vs)))))))))))))))))"

section \<open>The missingness heatmap renderer\<close>

text \<open>\<^verbatim>\<open>.isna().astype(int)\<close>.\<close>

definition isna_int :: "cell list \<Rightarrow> cell list" where
  "isna_int vs = map (\<lambda>v. if isna v then Some 1 else Some 0) vs"

text \<open>
  \<^verbatim>\<open>df.groupby('Hour')['missing'].agg(['sum', 'count'])\<close>: a new table with one row per
  group key, in the order of the keys.
\<close>

definition groupby_agg_sum_count :: "cell list \<Rightarrow> cell list \<Rightarrow> frame" where
  "groupby_agg_sum_count keys vals =
     [Hour \<mapsto> map Some (group_keys keys),
      Sum \<mapsto> map (\<lambda>g. group_sum (group_vals keys vals g)) (group_keys keys),
      Count \<mapsto> map (\<lambda>g. group_count (group_vals keys vals g)) (group_keys keys)]"

text \<open>
  \<^verbatim>\<open>grouped.pivot_table(columns='Hour', values='pct_missing')\<close>: one row with a cell per
  hour; a cell that is \<open>NaN\<close> is left out.
\<close>

definition pivot_table :: "cell list \<Rightarrow> cell list \<Rightarrow> (rat \<times> rat) list" where
  "pivot_table keys vals =
     concat (map (\<lambda>kv. case fst kv of None \<Rightarrow> []
                        | Some g \<Rightarrow> (case snd kv of None \<Rightarrow> [] | Some p \<Rightarrow> [(g, p)]))
                 (zip keys vals))"

definition missingHeatMap ::
  "heap \<Rightarrow> axes \<Rightarrow> ref \<Rightarrow> string \<Rightarrow> string option \<Rightarrow> heap \<times> (error + axes)" where
  "missingHeatMap h ax data variable title =
     and_then (copy_columns h data [Hour, Var variable]) (\<lambda>h df.
     and_then (getitem h df (Var variable)) (\<lambda>h vs.
     and_then (setitem h df Missing (isna_int vs), Inr ()) (\<lambda>h _.
     and_then (getitem h df Hour) (\<lambda>h ks.
     and_then (getitem h df Missing) (\<lambda>h ms.
     and_then (case alloc h (groupby_agg_sum_count ks ms) of
                 (h1, r) \<Rightarrow> (h1, Inr r)) (\<lambda>h grouped.
     and_then (getitem h grouped Sum) (\<lambda>h totals.
     and_then (getitem h grouped Count) (\<lambda>h counts.
     and_then (setitem h grouped PctMissing (div_col totals counts), Inr ()) (\<lambda>h _.
     and_then (getitem h grouped Hour) (\<lambda>h hours.
     and_then (getitem h grouped PctMissing) (\<lambda>h pcts.
       (h, Inr (ax\<lparr>ax_heatmap := pivot_table hours pcts, ax_vrange := Some (0, 1),
                  ax_title :=
                    title_or title (''Distribution of '' @ variable @ '' around its median''),
                  ax_xlabel := [], ax_ylabel := []\<rparr>)))))))))))))"

section \<open>The stacked entry points\<close>

text \<open>
  \<^verbatim>\<open>plt.subplots(nrows=n, ncols=1)\<close> as matplotlib documents it: the grid needs a
  positive number of rows (\<^verbatim>\<open>ValueError\<close> otherwise); with the default
  \<^verbatim>\<open>squeeze=True\<close> a single subplot is returned as the \<^verbatim>\<open>Axes\<close> object itself and
  several as an array. Indexing the single object raises \<^verbatim>\<open>TypeError\<close>.
\<close>

datatype axes_grid = One axes | Many "axes list"

definition subplots :: "nat \<Rightarrow> error + axes_grid" where
  "subplots n =
     (if n = 0 then Inl ValueError
      else if n = 1 then Inr (One new_axes)
      else Inr (Many (replicate n new_axes)))"

definition axes_getitem :: "axes_grid \<Rightarrow> nat \<Rightarrow> error + axes" where
  "axes_getitem g i =
     (case g of One a \<Rightarrow> Inl TypeError
      | Many axs \<Rightarrow> if i < length axs then Inr (axs ! i) else Inl IndexError)"

text \<open>The state of the \<open>i\<close>-th \<^verbatim>\<open>Axes\<close> object after it was drawn on.\<close>

definition axes_drawn :: "axes_grid \<Rightarrow> nat \<Rightarrow> axes \<Rightarrow> axes_grid" where
  "axes_drawn g i a = (case g of One b \<Rightarrow> One b | Many axs \<Rightarrow> Many (axs[i := a]))"

definition tick_params :: "axes \<Rightarrow> axes" where
  "tick_params a = a\<lparr>ax_labelbottom := False\<rparr>"

text \<open>\<^verbatim>\<open>1 / n\<close> on Python integers.\<close>

definition py_div :: "nat \<Rightarrow> nat \<Rightarrow> error + rat" where
  "py_div a b = (if b = 0 then Inl ZeroDivisionError else Inr (of_nat a / of_nat b))"

record figure =
  fig_axes :: axes_grid
  fig_suptitle :: string
  fig_hspace :: rat
  fig_top :: rat

text \<open>
  The loop \<^verbatim>\<open>for i, variable in enumerate(variables)\<close> with a renderer as its body:
  \<^verbatim>\<open>axes[i]\<close> is looked up, the renderer draws on it with the variable as title, and
  \<^verbatim>\<open>axes[i].tick_params(axis='x', labelbottom=False)\<close> follows.
\<close>

fun stack_loop ::
  "(heap \<Rightarrow> axes \<Rightarrow> ref \<Rightarrow> string \<Rightarrow> string option \<Rightarrow> heap \<times> (error + axes)) \<Rightarrow>
   heap \<Rightarrow> axes_grid \<Rightarrow> ref \<Rightarrow> nat \<Rightarrow> string list \<Rightarrow> heap \<times> (error + axes_grid)"
where
  "stack_loop render h g data i [] = (h, Inr g)"
| "stack_loop render h g data i (variable # rest) =
     and_then (h, axes_getitem g i) (\<lambda>h ax.
     and_then (render h ax data variable (Some variable)) (\<lambda>h plot.
     and_then (h, axes_getitem (axes_drawn g i plot) i) (\<lambda>h ax1.
       stack_loop render h (axes_drawn g i (tick_params ax1)) data (Suc i) rest)))"

definition boxPlotTimeSeriesMultiple ::
  "heap \<Rightarrow> ref \<Rightarrow> string list \<Rightarrow> string option \<Rightarrow> heap \<times> (error + figure)" where
  "boxPlotTimeSeriesMultiple h data variables title =
     and_then (h, subplots (length variables)) (\<lambda>h g.
     and_then (stack_loop boxplotTimeSeries h g data 0 variables) (\<lambda>h g.
     and_then (h, py_div 1 (length variables)) (\<lambda>h q.
       (h, Inr \<lparr>fig_axes = g,
                fig_suptitle = title_or title
                  (''Boxplots of Time Series Variables'' @ ''around the hourly median''),
                fig_hspace = 2 / 10, fig_top = 1 - q\<rparr>))))"

definition missingHeatMapMultiple ::
  "heap \<Rightarrow> ref \<Rightarrow> string list \<Rightarrow> string option \<Rightarrow> heap \<times> (error + figure)" where
  "missingHeatMapMultiple h data variables title =
     and_then (h, subplots (length variables)) (\<lambda>h g.
     and_then (stack_loop missingHeatMap h g data 0 variables) (\<lambda>h g.
     and_then (h, py_div 1 (length variables)) (\<lambda>h q.
       (h, Inr \<lparr>fig_axes = g,
                fig_suptitle = title_or title
                  ''Heatmaps of Missingness of Time Series Variables'',
                fig_hspace = 2 / 10, fig_top = 1 - q\<rparr>))))"

section \<open>Example inputs\<close>

text \<open>
  A feature table with hours 0 and 1 and the variable \<open>HR\<close>: 10, 12 and 100 in hour 0,
  20 and 22 in hour 1; a feature table whose variable is missing in every row; and a
  label table.
\<close>

definition hours0 :: "cell list" where
  "hours0 = [Some 0, Some 0, Some 0, Some 1, Some 1]"

definition hr0 :: "cell list" where
  "hr0 = [Some 10, Some 12, Some 100, Some 20, Some 22]"

definition table0 :: frame where
  "table0 = [Hour \<mapsto> hours0, Var ''HR'' \<mapsto> hr0]"

definition hours1 :: "cell list" where
  "hours1 = [Some 0, Some 1]"

definition hr1 :: "cell list" where
  "hr1 = [None, None]"

definition table_missing :: frame where
  "table_missing = [Hour \<mapsto> hours1, Var ''HR'' \<mapsto> hr1]"

definition labels0 :: frame where
  "labels0 = [Var ''RecordID'' \<mapsto> [Some 1, Some 2],
              Var ''In-hospital_death'' \<mapsto> [Some 0, Some 1]]"

text \<open>
  A world with all six files and a log file left by an earlier run; the same world
  without the label file of partition \<open>b\<close>; and the first world in a process where an
  ancestor logger has a handler.
\<close>

definition files0 :: "path \<rightharpoonup> frame" where
  "files0 = [''/proj/data/set-a.parquet.gzip'' \<mapsto> table0,
             ''/proj/data/set-a-outcomes.parquet.gzip'' \<mapsto> labels0,
             ''/proj/data/set-b.parquet.gzip'' \<mapsto> table_missing,
             ''/proj/data/set-b-outcomes.parquet.gzip'' \<mapsto> labels0,
             ''/proj/data/set-c.parquet.gzip'' \<mapsto> table0,
             ''/proj/data/set-c-outcomes.parquet.gzip'' \<mapsto> labels0]"

definition world0 :: world where
  "world0 = \<lparr>root_dir = ''/proj'', parquet_files = files0, log_dir_exists = True,
     text_files = [''/proj/logs/data-exploration.log'' \<mapsto> [''old record'']],
     logger_level = 0, handlers = [], ancestor_handlers = False\<rparr>"

definition world_no_b :: world where
  "world_no_b = world0\<lparr>parquet_files :=
     files0(''/proj/data/set-b-outcomes.parquet.gzip'' := None)\<rparr>"

definition world_ancestor :: world where
  "world_ancestor = world0\<lparr>ancestor_handlers := True\<rparr>"

section \<open>Properties of the loader\<close>

lemma read_parquet_world: "fst (read_parquet w p) = w"
  by (simp add: read_parquet_def split: option.split)

lemma load_loop_world: "fst (load_loop w ss acc) = w"
proof (induction ss arbitrary: acc)
  case Nil
  show ?case by simp
next
  case (Cons s ss)
  show ?case
    using Cons.IH
    by (simp add: read_parquet_def split: option.split)
qed

lemma load_loop_missing:
  assumes "s \<in> set ss"
    and "parquet_files w (featuresPath w s) = None \<or> parquet_files w (labelsPath w s) = None"
  shows "snd (load_loop w ss acc) = Inl FileNotFoundError"
  using assms
proof (induction ss arbitrary: acc)
  case Nil
  then show ?case by simp
next
  case (Cons t ss)
  show ?case
  proof (cases "parquet_files w (featuresPath w t) = None \<or> parquet_files w (labelsPath w t) = None")
    case True
    then show ?thesis
      by (auto simp: read_parquet_def split: option.split)
  next
    case False
    with Cons.prems have "s \<in> set ss" by auto
    with Cons.IH Cons.prems(2) have "\<And>acc. snd (load_loop w ss acc) = Inl FileNotFoundError"
      by blast
    with False show ?thesis
      by (auto simp: read_parquet_def split: option.split)
  qed
qed

lemma loadData_world: "fst (loadData w) = w"
  by (simp add: loadData_def load_loop_world)

lemmas path_defs = featuresPath_def labelsPath_def DATA_DIR_def LOG_DIR_def log_file_def
  path_join_def

text \<open>
  C3: when the feature file or the label file of one of the partitions is absent, the
  loader ends with \<^verbatim>\<open>FileNotFoundError\<close>; it returns no list, not even the pairs of the
  partitions read before.
\<close>

theorem loadData_missing_file_aborts:
  assumes "s \<in> set names"
    and "parquet_files w (featuresPath w s) = None \<or> parquet_files w (labelsPath w s) = None"
  shows "snd (loadData w) = Inl FileNotFoundError"
  unfolding loadData_def using assms by (rule load_loop_missing)

theorem loadData_missing_file_aborts_witness:
  "''b'' \<in> set names \<and> parquet_files world_no_b (labelsPath world_no_b ''b'') = None \<and>
   snd (loadData world_no_b) = Inl FileNotFoundError"
proof -
  have 1: "''b'' \<in> set names"
    by (simp add: names_def)
  have 2: "parquet_files world_no_b (labelsPath world_no_b ''b'') = None"
    by (simp add: world_no_b_def world0_def path_defs)
  from 1 2 loadData_missing_file_aborts[of "''b''" world_no_b] show ?thesis
    by blast
qed

text \<open>
  C6: the loader returns a list exactly when all six files are present, and the list
  then holds exactly three pairs: the feature and label tables of partition \<open>a\<close>, then
  those of \<open>b\<close>, then those of \<open>c\<close>.
\<close>

theorem loadData_three_pairs_in_order:
  "snd (loadData w) = Inr ds \<longleftrightarrow>
     (\<exists>fa la fb lb fc lc.
        parquet_files w (featuresPath w ''a'') = Some fa \<and>
        parquet_files w (labelsPath w ''a'') = Some la \<and>
        parquet_files w (featuresPath w ''b'') = Some fb \<and>
        parquet_files w (labelsPath w ''b'') = Some lb \<and>
        parquet_files w (featuresPath w ''c'') = Some fc \<and>
        parquet_files w (labelsPath w ''c'') = Some lc \<and>
        ds = [(fa, la), (fb, lb), (fc, lc)])"
  by (auto simp: loadData_def names_def read_parquet_def split: option.splits)

theorem loadData_three_pairs_in_order_witness:
  "snd (loadData world0) = Inr [(table0, labels0), (table_missing, labels0), (table0, labels0)]"
proof -
  have "parquet_files world0 (featuresPath world0 ''a'') = Some table0"
    "parquet_files world0 (labelsPath world0 ''a'') = Some labels0"
    "parquet_files world0 (featuresPath world0 ''b'') = Some table_missing"
    "parquet_files world0 (labelsPath world0 ''b'') = Some labels0"
    "parquet_files world0 (featuresPath world0 ''c'') = Some table0"
    "parquet_files world0 (labelsPath world0 ''c'') = Some labels0"
    by (simp_all add: world0_def files0_def path_defs)
  then show ?thesis
    using loadData_three_pairs_in_order[of world0
        "[(table0, labels0), (table_missing, labels0), (table0, labels0)]"]
    by blast
qed

text \<open>
  C8, as the code has it: where no ancestor logger has a handler, the set-up creates or
  truncates the log file and installs the file handler at debug level; where an ancestor
  has one, the set-up opens no file. The loader never calls the logger: it writes no
  record, and it leaves the whole world, the log file included, as it found it.
\<close>

theorem logging_and_loader_effects:
  "(\<not> ancestor_handlers w \<longrightarrow>
      text_files (setup_logging w) (log_file w) = Some [] \<and>
      handlers (setup_logging w) = [FileHandler (log_file w) DEBUG, StreamHandler CRITICAL]) \<and>
   (ancestor_handlers w \<longrightarrow>
      text_files (setup_logging w) = text_files w \<and> handlers (setup_logging w) = []) \<and>
   fst (loadData w) = w"
  by (simp add: setup_logging_def hasHandlers_def Let_def loadData_world path_defs)

theorem logging_and_loader_effects_witness:
  "\<not> ancestor_handlers world0 \<and>
   text_files (setup_logging world0) (log_file world0) = Some [] \<and>
   fst (loadData (setup_logging world0)) = setup_logging world0"
proof -
  have "\<not> ancestor_handlers world0"
    by (simp add: world0_def)
  then show ?thesis
    using logging_and_loader_effects[of world0] logging_and_loader_effects[of "setup_logging world0"]
    by blast
qed

text \<open>
  The claim as written fails: after the set-up and a successful load the log file holds
  no record, and in a process where an ancestor logger has a handler the set-up does not
  recreate the log file.
\<close>

theorem loader_emits_no_log_record:
  "snd (loadData (setup_logging world0)) =
     Inr [(table0, labels0), (table_missing, labels0), (table0, labels0)] \<and>
   text_files (fst (loadData (setup_logging world0))) (log_file world0) = Some [] \<and>
   text_files (setup_logging world_ancestor) (log_file world_ancestor) = Some [''old record'']"
  by (simp add: loadData_world)
    (simp add: loadData_def names_def read_parquet_def setup_logging_def hasHandlers_def
      world_ancestor_def world0_def files0_def path_defs)

section \<open>Properties of the grouped median and quantile\<close>


lemma group_vals_map:
  "length ks = length vs \<Longrightarrow> group_vals ks (map f vs) g = map f (group_vals ks vs g)"
  by (induction ks vs rule: list_induct2) (auto simp: group_vals_def)














lemma nth_in_group:
  assumes "length ks = length cs" and "i < length ks" and "ks ! i = Some g"
  shows "cs ! i \<in> set (group_vals ks cs g)"
proof -
  have "(ks ! i, cs ! i) \<in> set (zip ks cs)"
    using assms(1,2) by (auto simp: set_zip)
  then have "(Some g, cs ! i) \<in> set (filter (\<lambda>kv. fst kv = Some g) (zip ks cs))"
    using assms(3) by simp
  then show ?thesis
    unfolding group_vals_def by force
qed








lemma length_quantile_cols [simp]:
  "length (quantile_low ks c) = length ks" "length (quantile_high ks c) = length ks"
  by (simp_all add: quantile_low_def quantile_high_def groupby_transform_def)



section \<open>The renderers on the object store\<close>

lemmas heap_defs = copy_columns_def alloc_def and_then_def transform_def getitem_def setitem_def
  sns_boxplot_def



lemma boxplot_heap:
  assumes "(h ! data) Hour = Some ks" and "(h ! data) (Var variable) = Some vs"
  shows "fst (boxplotTimeSeries h ax data variable title) =
       h @ [[Hour \<mapsto> ks, Var variable \<mapsto> centre ks vs,
             QuantileLow \<mapsto> quantile_low ks (centre ks vs),
             QuantileHigh \<mapsto> quantile_high ks (centre ks vs)],
            filter_frame (trim_mask (centre ks vs) (quantile_low ks (centre ks vs))
                                  (quantile_high ks (centre ks vs)))
              [Hour \<mapsto> ks, Var variable \<mapsto> centre ks vs,
               QuantileLow \<mapsto> quantile_low ks (centre ks vs),
               QuantileHigh \<mapsto> quantile_high ks (centre ks vs)]]"
  using assms
  by (auto simp: boxplotTimeSeries_def heap_defs centre_def quantile_low_def quantile_high_def
      filter_frame_def fun_eq_iff split: option.splits)

lemma boxplot_result:
  assumes "(h ! data) Hour = Some ks" and "(h ! data) (Var variable) = Some vs"
    and "m = trim_mask (centre ks vs) (quantile_low ks (centre ks vs))
                                  (quantile_high ks (centre ks vs))"
  shows "snd (boxplotTimeSeries h ax data variable title) =
       set_ylim (ax\<lparr>ax_boxes := Some (select_rows m ks, select_rows m (centre ks vs)),
                    ax_title := title_or title
                       (''Distribution of '' @ variable @ '' around its median''),
                    ax_xlabel := [], ax_ylabel := []\<rparr>)
         (neg_cell (y_abs_max (select_rows m (centre ks vs))))
         (y_abs_max (select_rows m (centre ks vs)))"
  using assms
  by (auto simp: boxplotTimeSeries_def heap_defs centre_def quantile_low_def quantile_high_def
      filter_frame_def nth_append split: option.splits)

lemma boxplot_heap_error:
  assumes "(h ! data) Hour = None \<or> (h ! data) (Var variable) = None"
  shows "boxplotTimeSeries h ax data variable title = (h, Inl KeyError)"
  using assms
  by (auto simp: boxplotTimeSeries_def heap_defs split: option.splits)

section \<open>The boxplot renderer: centring and trimming\<close>



lemmas eval_defs = centre_def sub_col_def groupby_transform_def group_vals_def median_def
  sub_cell_def quantile_low_def quantile_high_def quantile_def lerp_at_def trim_mask_def
  keep_row_def isna_def ge_cell_def le_cell_def select_rows_def

lemma centre0: "centre hours0 hr0 = [Some (- 2), Some 0, Some 88, Some (- 1), Some 1]"
  by (simp add: hours0_def hr0_def eval_defs)

lemma low0: "quantile_low hours0 [Some (- 2), Some 0, Some 88, Some (- 1), Some 1] =
    [Some (- 19 / 10), Some (- 19 / 10), Some (- 19 / 10), Some (- 19 / 20), Some (- 19 / 20)]"
  by (simp add: hours0_def eval_defs)

lemma high0: "quantile_high hours0 [Some (- 2), Some 0, Some 88, Some (- 1), Some 1] =
    [Some (418 / 5), Some (418 / 5), Some (418 / 5), Some (19 / 20), Some (19 / 20)]"
  by code_simp

lemma mask0: "trim_mask [Some (- 2), Some 0, Some 88, Some (- 1), Some 1]
    [Some (- 19 / 10), Some (- 19 / 10), Some (- 19 / 10), Some (- 19 / 20), Some (- 19 / 20)]
    [Some (418 / 5), Some (418 / 5), Some (418 / 5), Some (19 / 20), Some (19 / 20)] =
    [False, True, False, False, False]"
  by (simp add: eval_defs)







text \<open>
  C2, at a table whose variable is missing in every row: the trim keeps both rows, the
  largest absolute value of the retained column is \<open>NaN\<close>, \<^verbatim>\<open>np.max\<close> propagates it past
  the 0.05 floor, and \<^verbatim>\<open>set_ylim\<close> refuses the limits: the renderer ends with
  \<^verbatim>\<open>ValueError\<close> instead of an axis bound of 0.05.
\<close>

theorem boxplot_all_missing_axis_bound:
  "select_rows (trim_mask (centre hours1 hr1) (quantile_low hours1 (centre hours1 hr1))
       (quantile_high hours1 (centre hours1 hr1))) (centre hours1 hr1) = [None, None] \<and>
   y_abs_max [None, None] = None \<and>
   snd (boxplotTimeSeries [table_missing] new_axes 0 ''HR'' None) = Inl ValueError"
proof -
  have 1: "([table_missing] ! 0) Hour = Some hours1"
    and 2: "([table_missing] ! 0) (Var ''HR'') = Some hr1"
    by (simp_all add: table_missing_def)
  have 3: "select_rows (trim_mask (centre hours1 hr1) (quantile_low hours1 (centre hours1 hr1))
       (quantile_high hours1 (centre hours1 hr1))) (centre hours1 hr1) = [None, None]"
    by (simp add: hours1_def hr1_def eval_defs)
  have 4: "y_abs_max [None, None] = None"
    by (simp add: y_abs_max_def series_max_def np_max_def abs_cell_def)
  show ?thesis
    unfolding boxplot_result[OF 1 2 refl] 3 4
    by (simp add: 3 4 set_ylim_def neg_cell_def)
qed

section \<open>The renderers leave the loaded tables alone\<close>

lemma heatmap_heap_ext:
  "\<exists>ext. fst (missingHeatMap h ax data variable title) = h @ ext"
  by (auto simp: missingHeatMap_def heap_defs groupby_agg_sum_count_def nth_append
       split: option.splits)

lemma boxplot_heap_ext:
  "\<exists>ext. fst (boxplotTimeSeries h ax data variable title) = h @ ext"
proof (cases "(h ! data) Hour = None \<or> (h ! data) (Var variable) = None")
  case True
  then show ?thesis by (simp add: boxplot_heap_error)
next
  case False
  then obtain ks vs where "(h ! data) Hour = Some ks" "(h ! data) (Var variable) = Some vs"
    by auto
  then show ?thesis by (simp add: boxplot_heap)
qed

text \<open>
  C7: both renderers leave every table that was in the store before the call as it was,
  the input table included, whether the call returns or raises: all their writes go to
  objects they created themselves.
\<close>

theorem renderers_leave_tables_unchanged:
  assumes "r < length h"
  shows "fst (boxplotTimeSeries h ax data variable title) ! r = h ! r \<and>
         fst (missingHeatMap h ax data variable title) ! r = h ! r \<and>
         take (length h) (fst (boxplotTimeSeries h ax data variable title)) = h \<and>
         take (length h) (fst (missingHeatMap h ax data variable title)) = h"
proof -
  obtain e1 e2 where "fst (boxplotTimeSeries h ax data variable title) = h @ e1"
    "fst (missingHeatMap h ax data variable title) = h @ e2"
    using boxplot_heap_ext heatmap_heap_ext by blast
  with assms show ?thesis by (simp add: nth_append)
qed

theorem renderers_leave_tables_unchanged_witness:
  "(0::nat) < length [table0] \<and>
   fst (boxplotTimeSeries [table0] new_axes 0 ''HR'' None) ! 0 = table0 \<and>
   fst (missingHeatMap [table0] new_axes 0 ''HR'' None) ! 0 = table0"
proof -
  have "(0::nat) < length [table0]" by simp
  from this renderers_leave_tables_unchanged[OF this, of new_axes 0 "''HR''" None]
  show ?thesis by simp
qed

section \<open>The stacked entry points on short variable lists\<close>

text \<open>
  C9, as the code has it: with fewer than two variables both stacked entry points fail
  and leave the store as it was. With one variable \<^verbatim>\<open>axes[0]\<close> indexes the single
  \<^verbatim>\<open>Axes\<close> object (\<^verbatim>\<open>TypeError\<close>). With no variable the creation of the subplot grid
  refuses zero rows (\<^verbatim>\<open>ValueError\<close>); the division by the number of variables in the
  layout adjustment is never reached.
\<close>

theorem stacked_entry_points_fail_below_two:
  assumes "length variables < 2"
  shows "boxPlotTimeSeriesMultiple h data variables title =
           (h, Inl (if variables = [] then ValueError else TypeError)) \<and>
         missingHeatMapMultiple h data variables title =
           (h, Inl (if variables = [] then ValueError else TypeError))"
proof (cases variables)
  case Nil
  then show ?thesis
    by (simp add: boxPlotTimeSeriesMultiple_def missingHeatMapMultiple_def subplots_def
        and_then_def)
next
  case (Cons v rest)
  with assms have "rest = []" by simp
  with Cons show ?thesis
    by (simp add: boxPlotTimeSeriesMultiple_def missingHeatMapMultiple_def subplots_def
        and_then_def axes_getitem_def)
qed

theorem stacked_entry_points_fail_below_two_witness:
  "length [''HR''] < 2 \<and>
   boxPlotTimeSeriesMultiple [table0] 0 [''HR''] None = ([table0], Inl TypeError) \<and>
   missingHeatMapMultiple [table0] 0 [''HR''] None = ([table0], Inl TypeError)"
proof -
  have "length [''HR''] < 2" by simp
  from this stacked_entry_points_fail_below_two[OF this, of "[table0]" 0 None]
  show ?thesis by simp
qed

text \<open>
  The claim as written names the division by zero as the failure on the empty list; the
  call ends earlier, with the \<^verbatim>\<open>ValueError\<close> of the grid creation.
\<close>

theorem empty_list_fails_before_division:
  "boxPlotTimeSeriesMultiple [table0] 0 [] None = ([table0], Inl ValueError) \<and>
   missingHeatMapMultiple [table0] 0 [] None = ([table0], Inl ValueError) \<and>
   snd (boxPlotTimeSeriesMultiple [table0] 0 [] None) \<noteq> Inl ZeroDivisionError \<and>
   snd (missingHeatMapMultiple [table0] 0 [] None) \<noteq> Inl ZeroDivisionError"
  by (simp add: boxPlotTimeSeriesMultiple_def missingHeatMapMultiple_def subplots_def
      and_then_def)

section \<open>The missing fraction of the heatmap\<close>

lemma group_vals_isna_int:
  "length ks = length vs \<Longrightarrow> group_vals ks (isna_int vs) g = isna_int (group_vals ks vs g)"
  by (simp add: isna_int_def group_vals_map)

lemma sum_isna_int: "sum_list (dropna (isna_int xs)) = of_nat (length (filter isna xs))"
  by (induction xs) (simp_all add: isna_int_def)

lemma count_isna_int: "length (dropna (isna_int xs)) = length xs"
  by (induction xs) (simp_all add: isna_int_def)

lemma set_dropna: "set (dropna cs) = {x. Some x \<in> set cs}"
  by (induction cs rule: dropna.induct) auto

lemma set_group_keys: "set (group_keys ks) = {g. Some g \<in> set ks}"
  by (simp add: group_keys_def set_dropna)

lemma group_nonempty:
  assumes "length ks = length vs" and "g \<in> set (group_keys ks)"
  shows "group_vals ks vs g \<noteq> []"
proof -
  from assms(2) have "Some g \<in> set ks" by (simp add: set_group_keys)
  then obtain i where "i < length ks" "ks ! i = Some g"
    by (auto simp: in_set_conv_nth)
  then have "vs ! i \<in> set (group_vals ks vs g)"
    using nth_in_group[OF assms(1)] by blast
  then show ?thesis by auto
qed

lemma set_group_vals: "set (group_vals ks vs g) \<subseteq> set vs"
  by (auto simp: group_vals_def dest: set_zip_rightD)

lemma pivot_table_map:
  "pivot_table (map Some gs) (map (\<lambda>g. Some (f g)) gs) = map (\<lambda>g. (g, f g)) gs"
  by (induction gs) (simp_all add: pivot_table_def)

lemma div_col_map:
  "div_col (map f gs) (map f' gs) = map (\<lambda>g. div_cell (f g) (f' g)) gs"
  by (induction gs) (simp_all add: div_col_def)

lemma pct_missing_col:
  assumes "length ks = length vs"
  shows "div_col (map (\<lambda>g. group_sum (group_vals ks (isna_int vs) g)) (group_keys ks))
                 (map (\<lambda>g. group_count (group_vals ks (isna_int vs) g)) (group_keys ks)) =
         map (\<lambda>g. Some (of_nat (length (filter isna (group_vals ks vs g))) /
                         of_nat (length (group_vals ks vs g)))) (group_keys ks)"
  unfolding div_col_map
proof (rule map_cong[OF refl])
  fix g assume "g \<in> set (group_keys ks)"
  then have "group_vals ks vs g \<noteq> []"
    using group_nonempty[OF assms] by blast
  then show "div_cell (group_sum (group_vals ks (isna_int vs) g))
                      (group_count (group_vals ks (isna_int vs) g)) =
             Some (of_nat (length (filter isna (group_vals ks vs g))) /
                         of_nat (length (group_vals ks vs g)))"
    by (simp add: group_vals_isna_int[OF assms] group_sum_def group_count_def sum_isna_int
        count_isna_int div_cell_def)
qed

lemma heatmap_grouped:
  assumes "(h ! data) Hour = Some ks" and "(h ! data) (Var variable) = Some vs"
  shows "fst (missingHeatMap h ax data variable title) =
     h @ [[Hour \<mapsto> ks, Var variable \<mapsto> vs, Missing \<mapsto> isna_int vs],
          (groupby_agg_sum_count ks (isna_int vs))
            (PctMissing \<mapsto>
               div_col (map (\<lambda>g. group_sum (group_vals ks (isna_int vs) g)) (group_keys ks))
                 (map (\<lambda>g. group_count (group_vals ks (isna_int vs) g)) (group_keys ks)))]"
  using assms
  by (auto simp: missingHeatMap_def heap_defs groupby_agg_sum_count_def nth_append fun_eq_iff
       split: option.splits)

lemma heatmap_result:
  assumes "(h ! data) Hour = Some ks" and "(h ! data) (Var variable) = Some vs"
  shows "snd (missingHeatMap h ax data variable title) =
     Inr (ax\<lparr>ax_heatmap := pivot_table (map Some (group_keys ks))
               (div_col (map (\<lambda>g. group_sum (group_vals ks (isna_int vs) g)) (group_keys ks))
                 (map (\<lambda>g. group_count (group_vals ks (isna_int vs) g)) (group_keys ks))),
             ax_vrange := Some (0, 1),
             ax_title := title_or title
                (''Distribution of '' @ variable @ '' around its median''),
             ax_xlabel := [], ax_ylabel := []\<rparr>)"
  using assms
  by (auto simp: missingHeatMap_def heap_defs groupby_agg_sum_count_def nth_append
       split: option.splits)

lemma fraction_bounds:
  assumes "xs \<noteq> []"
  shows "0 \<le> (of_nat (length (filter P xs)) / of_nat (length xs) :: rat)"
    and "(of_nat (length (filter P xs)) / of_nat (length xs) :: rat) \<le> 1"
proof -
  have "length (filter P xs) \<le> length xs" by (rule length_filter_le)
  then have "(of_nat (length (filter P xs)) :: rat) \<le> of_nat (length xs)"
    by (simp only: of_nat_le_iff)
  moreover have "(0::rat) < of_nat (length xs)" using assms by simp
  ultimately show "(of_nat (length (filter P xs)) / of_nat (length xs) :: rat) \<le> 1"
    by (simp add: divide_le_eq)
  show "0 \<le> (of_nat (length (filter P xs)) / of_nat (length xs) :: rat)"
    by simp
qed

text \<open>
  C5: on a table of the store whose \<open>Hour\<close> and variable columns are \<open>ks\<close> and \<open>vs\<close>,
  the heatmap renderer returns a strip with one cell per hour present in the table. The count
  column of the grouped table holds the number of rows of each hour, which is at least
  one; the cell of an hour is the number of its missing observations divided by that
  count, it lies between 0 and 1, and it is 1 for every hour when the variable is
  missing in every row.
\<close>

theorem missing_fraction_in_unit_interval:
  assumes "(h ! data) Hour = Some ks" and "(h ! data) (Var variable) = Some vs"
    and "length ks = length vs" and "data < length h"
  shows "\<exists>a. snd (missingHeatMap h ax data variable title) = Inr a \<and>
           map fst (ax_heatmap a) = group_keys ks \<and>
           set (group_keys ks) = {g. Some g \<in> set ks} \<and>
           (fst (missingHeatMap h ax data variable title) ! Suc (length h)) Count =
              Some (map (\<lambda>g. Some (of_nat (length (group_vals ks vs g)))) (group_keys ks)) \<and>
           (\<forall>gp \<in> set (ax_heatmap a).
              1 \<le> length (group_vals ks vs (fst gp)) \<and>
              snd gp = of_nat (length (filter isna (group_vals ks vs (fst gp)))) /
                       of_nat (length (group_vals ks vs (fst gp))) \<and>
              0 \<le> snd gp \<and> snd gp \<le> 1 \<and>
              (list_all isna vs \<longrightarrow> snd gp = 1))"
proof -
  let ?frac = "\<lambda>g. (of_nat (length (filter isna (group_vals ks vs g))) /
                       of_nat (length (group_vals ks vs g)) :: rat)"
  let ?a = "ax\<lparr>ax_heatmap := map (\<lambda>g. (g, ?frac g)) (group_keys ks),
             ax_vrange := Some (0, 1),
             ax_title := title_or title
                (''Distribution of '' @ variable @ '' around its median''),
             ax_xlabel := [], ax_ylabel := []\<rparr>"
  have res: "snd (missingHeatMap h ax data variable title) = Inr ?a"
    unfolding heatmap_result[OF assms(1,2)] pct_missing_col[OF assms(3)]
    by (simp add: pivot_table_map)
  have keys: "map fst (ax_heatmap ?a) = group_keys ks"
    by (simp add: comp_def)
  have cnt: "(fst (missingHeatMap h ax data variable title) ! Suc (length h)) Count =
              Some (map (\<lambda>g. Some (of_nat (length (group_vals ks vs g)))) (group_keys ks))"
    unfolding heatmap_grouped[OF assms(1,2)]
    by (simp add: nth_append groupby_agg_sum_count_def group_count_def
        group_vals_isna_int[OF assms(3)] count_isna_int)
  have cells: "1 \<le> length (group_vals ks vs (fst gp)) \<and>
              snd gp = ?frac (fst gp) \<and> 0 \<le> snd gp \<and> snd gp \<le> 1 \<and>
              (list_all isna vs \<longrightarrow> snd gp = 1)"
    if "gp \<in> set (ax_heatmap ?a)" for gp
  proof -
    from that have g: "fst gp \<in> set (group_keys ks)" and p: "snd gp = ?frac (fst gp)"
      by auto
    have ne: "group_vals ks vs (fst gp) \<noteq> []"
      using group_nonempty[OF assms(3) g] .
    then have len: "1 \<le> length (group_vals ks vs (fst gp))"
      by (cases "group_vals ks vs (fst gp)") simp_all
    have all: "snd gp = 1" if "list_all isna vs"
    proof -
      have "\<forall>x \<in> set (group_vals ks vs (fst gp)). isna x"
        using that set_group_vals[of ks vs "fst gp"] by (auto simp: list_all_iff)
      then have "filter isna (group_vals ks vs (fst gp)) = group_vals ks vs (fst gp)"
        by simp
      with ne p show ?thesis by simp
    qed
    have b: "0 \<le> snd gp" "snd gp \<le> 1"
      unfolding p by (rule fraction_bounds[OF ne])+
    from len p b all show ?thesis by blast
  qed
  from res keys cnt cells set_group_keys[of ks] show ?thesis
    by blast
qed

theorem missing_fraction_in_unit_interval_witness:
  "(0::nat) < length [table_missing] \<and> table_missing Hour = Some hours1 \<and> table_missing (Var ''HR'') = Some hr1 \<and>
   length hours1 = length hr1 \<and> list_all isna hr1 \<and>
   (\<exists>a. snd (missingHeatMap [table_missing] new_axes 0 ''HR'' None) = Inr a \<and>
        ax_heatmap a = [(0, 1), (1, 1)])"
proof -
  have 1: "([table_missing] ! 0) Hour = Some hours1"
    and 2: "([table_missing] ! 0) (Var ''HR'') = Some hr1"
    by (simp_all add: table_missing_def)
  have 3: "length hours1 = length hr1"
    by (simp add: hours1_def hr1_def)
  have 4: "list_all isna hr1"
    by (simp add: hr1_def isna_def)
  have 5: "group_keys hours1 = [0, 1]"
    by (simp add: group_keys_def hours1_def)
  have 0: "(0::nat) < length [table_missing]"
    by simp
  from missing_fraction_in_unit_interval[OF 1 2 3 0, of new_axes None]
  obtain a where a: "snd (missingHeatMap [table_missing] new_axes 0 ''HR'' None) = Inr a"
    "map fst (ax_heatmap a) = group_keys hours1"
    "\<forall>gp \<in> set (ax_heatmap a). list_all isna hr1 \<longrightarrow> snd gp = 1"
    by blast
  from a(2) 5 obtain p q where pq: "ax_heatmap a = [(0, p), (1, q)]"
    by (auto simp: map_eq_Cons_conv)
  with a(3) 4 have "p = 1" "q = 1" by auto
  with pq a(1) 1 2 3 4 show ?thesis by simp
qed

section \<open>The y-axis bound of the boxplot\<close>

lemma dropna_abs: "dropna (map abs_cell cs) = map abs (dropna cs)"
  by (induction cs rule: dropna.induct) (simp_all add: abs_cell_def)

lemma y_abs_max_eq:
  "y_abs_max vs =
     (if dropna vs = [] then None
      else Some (max (Max (set (map abs (dropna vs)))) (5 / 100)))"
proof (cases "dropna vs")
  case Nil
  then show ?thesis
    by (simp add: y_abs_max_def series_max_def np_max_def dropna_abs)
next
  case (Cons x xs)
  have "fold max (map abs xs) \<bar>x\<bar> = Max (set (map abs (x # xs)))"
    using Max.set_eq_fold[of "\<bar>x\<bar>" "map abs xs"] by simp
  with Cons show ?thesis
    by (simp add: y_abs_max_def series_max_def np_max_def dropna_abs)
qed

text \<open>
  The symmetric y-limits in general: when no retained centred value is a number the
  renderer ends with \<^verbatim>\<open>ValueError\<close>; otherwise the limits are \<open>- b\<close> and \<open>b\<close>, where
  \<open>b\<close> is the larger of 0.05 and the largest absolute retained centred value.
\<close>

theorem boxplot_axis_bound:
  assumes "(h ! data) Hour = Some ks" and "(h ! data) (Var variable) = Some vs"
    and "kept = select_rows (trim_mask (centre ks vs) (quantile_low ks (centre ks vs))
                   (quantile_high ks (centre ks vs))) (centre ks vs)"
    and "b = max (Max (set (map abs (dropna kept)))) (5 / 100)" and "data < length h"
  shows "(dropna kept = [] \<longrightarrow>
            snd (boxplotTimeSeries h ax data variable title) = Inl ValueError) \<and>
         (dropna kept \<noteq> [] \<longrightarrow>
            (\<exists>a. snd (boxplotTimeSeries h ax data variable title) = Inr a \<and>
                 ax_ylim a = Some (- b, b)) \<and> 5 / 100 \<le> b)"
  unfolding boxplot_result[OF assms(1,2) refl] assms(3,4) y_abs_max_eq
  by (simp add: set_ylim_def neg_cell_def)

theorem boxplot_axis_bound_witness:
  "(0::nat) < length [table0] \<and> dropna [Some (0::rat)] \<noteq> [] \<and>
   (\<exists>a. snd (boxplotTimeSeries [table0] new_axes 0 ''HR'' None) = Inr a \<and>
        ax_ylim a = Some (- (5 / 100), 5 / 100))"
proof -
  have 1: "([table0] ! 0) Hour = Some hours0" and 2: "([table0] ! 0) (Var ''HR'') = Some hr0"
    by (simp_all add: table0_def)
  have 3: "[Some 0] = select_rows (trim_mask (centre hours0 hr0)
       (quantile_low hours0 (centre hours0 hr0))
       (quantile_high hours0 (centre hours0 hr0))) (centre hours0 hr0)"
    unfolding centre0 low0 high0 mask0 by (simp add: select_rows_def)
  have 4: "(5 / 100 :: rat) = max (Max (set (map abs (dropna [Some 0])))) (5 / 100)"
    by simp
  have 5: "dropna [Some (0::rat)] \<noteq> []" by simp
  have 0: "(0::nat) < length [table0]" by simp
  from boxplot_axis_bound[OF 1 2 3 4 0, of new_axes None] 5 show ?thesis
    by blast
qed

section \<open>The stacked entry points and the store\<close>

lemma stack_loop_ext:
  assumes "\<And>h ax v t. \<exists>e. fst (render h ax data v t) = h @ e"
  shows "\<exists>e. fst (stack_loop render h g data i vs) = h @ e"
proof (induction vs arbitrary: h g i)
  case Nil
  show ?case by simp
next
  case (Cons v vs)
  show ?case
  proof (cases "axes_getitem g i")
    case (Inl e)
    then show ?thesis by (simp add: and_then_def)
  next
    case (Inr ax)
    obtain h1 r where r: "render h ax data v (Some v) = (h1, r)"
      by (cases "render h ax data v (Some v)")
    obtain e1 where e1: "h1 = h @ e1"
      using assms[of h ax v "Some v"] r by auto
    show ?thesis
    proof (cases r)
      case (Inl e)
      with Inr r e1 show ?thesis by (simp add: and_then_def)
    next
      case plot: (Inr plot)
      show ?thesis
      proof (cases "axes_getitem (axes_drawn g i plot) i")
        case (Inl e)
        with Inr r e1 plot show ?thesis by (simp add: and_then_def)
      next
        case ax1: (Inr ax1)
        obtain e2 where "fst (stack_loop render h1 (axes_drawn g i (tick_params ax1)) data
            (Suc i) vs) = h1 @ e2"
          using Cons.IH by blast
        with Inr r e1 plot ax1 show ?thesis by (simp add: and_then_def)
      qed
    qed
  qed
qed

text \<open>
  The stacked entry points, too, leave every table that was in the store before the
  call as it was, for every list of variables and on every path.
\<close>

theorem stacked_entry_points_leave_tables_unchanged:
  "take (length h) (fst (boxPlotTimeSeriesMultiple h data variables title)) = h \<and>
   take (length h) (fst (missingHeatMapMultiple h data variables title)) = h"
proof -
  have b: "\<exists>e. fst (boxPlotTimeSeriesMultiple h data variables title) = h @ e"
  proof (cases "subplots (length variables)")
    case (Inl e)
    then show ?thesis by (simp add: boxPlotTimeSeriesMultiple_def and_then_def)
  next
    case (Inr g)
    obtain h1 r where r: "stack_loop boxplotTimeSeries h g data 0 variables = (h1, r)"
      by (cases "stack_loop boxplotTimeSeries h g data 0 variables")
    then obtain e where "h1 = h @ e"
      using stack_loop_ext[of boxplotTimeSeries data h g 0 variables] boxplot_heap_ext by auto
    with Inr r show ?thesis
      by (cases r; cases "py_div 1 (length variables)")
        (simp_all add: boxPlotTimeSeriesMultiple_def and_then_def)
  qed
  have m: "\<exists>e. fst (missingHeatMapMultiple h data variables title) = h @ e"
  proof (cases "subplots (length variables)")
    case (Inl e)
    then show ?thesis by (simp add: missingHeatMapMultiple_def and_then_def)
  next
    case (Inr g)
    obtain h1 r where r: "stack_loop missingHeatMap h g data 0 variables = (h1, r)"
      by (cases "stack_loop missingHeatMap h g data 0 variables")
    then obtain e where "h1 = h @ e"
      using stack_loop_ext[of missingHeatMap data h g 0 variables] heatmap_heap_ext by auto
    with Inr r show ?thesis
      by (cases r; cases "py_div 1 (length variables)")
        (simp_all add: missingHeatMapMultiple_def and_then_def)
  qed
  from b m show ?thesis by auto
qed

end
